theory Spec2Isabelle
  imports Main "HOL-Library.Word"
begin

unbundle bit_operations_syntax

section \<open>The plugin loader of libaudcore (plugin-load.c)\<close>

text \<open>
  The file keeps one global, the list \<open>loaded_modules\<close>, and talks to the outside world
  through GLib (\<open>g_module_open\<close>, \<open>g_module_symbol\<close>, \<open>g_module_close\<close>, \<open>g_stat\<close>), through
  the plugin registry (\<open>plugin_registry_load\<close>, \<open>plugin_register\<close>, \<open>plugin_registry_prune\<close>,
  \<open>plugin_registry_save\<close>), through the hooks of the plugins and through \<open>stderr\<close>.
  The model passes a state made of the global and of the trace of the outside calls, in the
  order in which they happen. What the outside world answers is read from an environment.
  The mutex around the list updates is not modelled: the functions are run one at a time.
  The debug line of \<open>AUDDBG\<close> and the freeing of list cells are left out.
\<close>

subsection \<open>Data\<close>

text \<open>
  Modelled from the spec: the plugin kinds, declared in plugin.h, which is not part of the
  sources at hand. The spec lists Transport, Playlist, Input, Output, Effect, General and
  Visualization; the names are the ones plugin-load.c uses for four of them.
\<close>

datatype PluginType =
    PLUGIN_TYPE_TRANSPORT
  | PLUGIN_TYPE_PLAYLIST
  | PLUGIN_TYPE_INPUT
  | PLUGIN_TYPE_EFFECT
  | PLUGIN_TYPE_OUTPUT
  | PLUGIN_TYPE_VIS
  | PLUGIN_TYPE_GENERAL

text \<open>
  The header a plugin exports. A hook is a function pointer that may be missing:
  \<open>PLUGIN_HAS_FUNC (header, init)\<close> is \<open>init header \<noteq> None\<close>, and \<open>Some ok\<close> is a hook that
  returns \<open>ok\<close> when it is called. \<open>cleanup\<close> returns nothing.
\<close>

record Plugin =
  magic :: int
  version :: int
  type :: PluginType
  init :: "bool option"
  cleanup :: "unit option"

text \<open>
  A module handle of GLib: the file name it was opened with (\<open>g_module_name\<close>) and what
  \<open>g_module_symbol\<close> finds under the name \<open>_aud_plugin_self\<close>.
\<close>

record GModule =
  file_name :: string
  aud_plugin_self :: "Plugin option"

record LoadedModule =
  header :: Plugin
  module :: GModule

text \<open>
  What \<open>g_stat\<close> fills in: the mode, and the modification time, a \<open>time_t\<close>, which is a
  signed integer of 64 bits on the platforms modelled here.
\<close>

record GStatBuf =
  st_mode :: "32 word"
  st_mtime :: "64 word"

text \<open>The five messages the file prints on \<open>stderr\<close>, under the names the spec gives them.\<close>

datatype error =
    OpenFailed             \<comment> \<open>"could not be loaded"\<close>
  | NotAPlugin             \<comment> \<open>"is not a valid Audacious plugin"\<close>
  | IncompatibleVersion    \<comment> \<open>"is not compatible with this version of Audacious"\<close>
  | InitFailed             \<comment> \<open>"failed to initialize"\<close>
  | StatFailed             \<comment> \<open>"Unable to stat"\<close>

datatype event =
    EvModuleOpen GModule          \<comment> \<open>\<open>g_module_open\<close> returned this handle\<close>
  | EvModuleClose GModule         \<comment> \<open>\<open>g_module_close\<close>\<close>
  | EvError string error          \<comment> \<open>\<open>fprintf (stderr, ...)\<close> about this path\<close>
  | EvInit Plugin                 \<comment> \<open>\<open>header->init ()\<close>\<close>
  | EvCleanup Plugin              \<comment> \<open>\<open>header->cleanup ()\<close>\<close>
  | EvDirForeach string           \<comment> \<open>\<open>dir_foreach\<close> on this directory\<close>
  | EvRegister string int         \<comment> \<open>\<open>plugin_register (path, timestamp)\<close>, the \<open>int\<close> it receives\<close>
  | EvRegistryLoad                \<comment> \<open>\<open>plugin_registry_load ()\<close>\<close>
  | EvRegistryPrune               \<comment> \<open>\<open>plugin_registry_prune ()\<close>\<close>
  | EvRegistrySave                \<comment> \<open>\<open>plugin_registry_save ()\<close>\<close>

record state =
  loaded_modules :: "LoadedModule list"
  trace :: "event list"

text \<open>
  The environment: the constants of plugin.h and of the build (\<open>_AUD_PLUGIN_MAGIC\<close>,
  \<open>_AUD_PLUGIN_VERSION_MIN\<close>, \<open>_AUD_PLUGIN_VERSION\<close>, \<open>PLUGIN_SUFFIX\<close>, \<open>VALGRIND_FRIENDLY\<close>),
  which the sources at hand do not define and which are parameters here, and the answers
  of the operating system and of libaudcore's helpers.
\<close>

record env =
  AUD_PLUGIN_MAGIC :: int
  AUD_PLUGIN_VERSION_MIN :: int
  AUD_PLUGIN_VERSION :: int
  PLUGIN_SUFFIX :: string
  VALGRIND_FRIENDLY :: bool
  g_module_supported :: bool
  shared_objects :: "string \<Rightarrow> Plugin option option"
    \<comment> \<open>\<open>None\<close>: the file cannot be opened as a module; \<open>Some self\<close>: it can, and exports \<open>self\<close>\<close>
  g_stat :: "string \<Rightarrow> GStatBuf option"
    \<comment> \<open>\<open>None\<close>: \<open>g_stat\<close> returns a negative value; it follows symbolic links\<close>
  dir_entries :: "string \<Rightarrow> (string \<times> string) list"
    \<comment> \<open>the (path, basename) pairs \<open>dir_foreach\<close> visits in a directory, in order\<close>
  plugin_dir :: string
    \<comment> \<open>\<open>aud_get_path (AUD_PATH_PLUGIN_DIR)\<close>\<close>
  filename_build :: "string \<Rightarrow> string \<Rightarrow> string"

definition plugin_dir_list :: "string list" where
  "plugin_dir_list =
     [''Transport'', ''Container'', ''Input'', ''Output'', ''Effect'', ''General'',
      ''Visualization'']"

subsection \<open>Outside calls\<close>

definition emit :: "event \<Rightarrow> state \<Rightarrow> state" where
  "emit e s = s\<lparr>trace := trace s @ [e]\<rparr>"

definition g_module_open :: "env \<Rightarrow> string \<Rightarrow> GModule option" where
  "g_module_open env filename =
     (case shared_objects env filename of
        None \<Rightarrow> None
      | Some self \<Rightarrow> Some \<lparr>file_name = filename, aud_plugin_self = self\<rparr>)"

definition g_module_close :: "GModule \<Rightarrow> state \<Rightarrow> state" where
  "g_module_close m s = emit (EvModuleClose m) s"

definition report :: "string \<Rightarrow> error \<Rightarrow> state \<Rightarrow> state" where
  "report path err s = emit (EvError path err) s"

text \<open>
  \<open>plugin_register\<close> belongs to the registry; its prototype is in plugins-internal.h, which
  is not part of the sources at hand. It takes the timestamp as an \<open>int\<close>, a signed
  integer of 32 bits; the trace records the value it receives.
\<close>

definition plugin_register :: "string \<Rightarrow> 32 word \<Rightarrow> state \<Rightarrow> state" where
  "plugin_register path timestamp s = emit (EvRegister path (sint timestamp)) s"

text \<open>\<open>S_IFMT\<close> is octal 170000 and \<open>S_IFREG\<close> is octal 100000.\<close>

definition S_ISREG :: "32 word \<Rightarrow> bool" where
  "S_ISREG m \<longleftrightarrow> m AND 0xF000 = 0x8000"

text \<open>\<open>g_ascii_tolower\<close>: the letters A to Z become a to z, every other byte stays.\<close>

definition ascii_tolower :: "char \<Rightarrow> char" where
  "ascii_tolower c =
     (case map_of (zip ''ABCDEFGHIJKLMNOPQRSTUVWXYZ'' ''abcdefghijklmnopqrstuvwxyz'') c of
        None \<Rightarrow> c
      | Some l \<Rightarrow> l)"

text \<open>
  Modelled from the spec: \<open>str_has_suffix_nocase\<close> of audstrings.c, which is not part of
  the sources at hand. The spec: the name ends with the suffix, case-insensitive.
\<close>

definition str_has_suffix_nocase :: "string \<Rightarrow> string \<Rightarrow> bool" where
  "str_has_suffix_nocase str suffix \<longleftrightarrow>
     length suffix \<le> length str \<and>
     map ascii_tolower (drop (length str - length suffix) str) = map ascii_tolower suffix"

text \<open>
  Modelled from the spec: \<open>dir_foreach\<close>, which is not part of the sources at hand. It
  walks the entries of the directory and hands each to the callback; a callback that
  returns true stops the walk.
\<close>

fun dir_foreach_entries ::
  "(string \<Rightarrow> string \<Rightarrow> state \<Rightarrow> bool \<times> state) \<Rightarrow> (string \<times> string) list \<Rightarrow> state \<Rightarrow> state"
where
  "dir_foreach_entries func [] s = s"
| "dir_foreach_entries func ((path, basename) # rest) s =
     (case func path basename s of
        (stop, s') \<Rightarrow> if stop then s' else dir_foreach_entries func rest s')"

definition dir_foreach ::
  "env \<Rightarrow> string \<Rightarrow> (string \<Rightarrow> string \<Rightarrow> state \<Rightarrow> bool \<times> state) \<Rightarrow> state \<Rightarrow> state"
where
  "dir_foreach env path func s =
     dir_foreach_entries func (dir_entries env path) (emit (EvDirForeach path) s)"

subsection \<open>plugin_load\<close>

definition plugin_load :: "env \<Rightarrow> string \<Rightarrow> state \<Rightarrow> Plugin option \<times> state" where
  "plugin_load env filename s =
     (case g_module_open env filename of
        None \<Rightarrow> (None, report filename OpenFailed s)
      | Some m \<Rightarrow>
          (let s1 = emit (EvModuleOpen m) s;
               not_a_plugin = (None, g_module_close m (report filename NotAPlugin s1))
           in case aud_plugin_self m of
                None \<Rightarrow> not_a_plugin
              | Some h \<Rightarrow>
                  if magic h \<noteq> AUD_PLUGIN_MAGIC env then not_a_plugin
                  else if version h < AUD_PLUGIN_VERSION_MIN env \<or>
                          version h > AUD_PLUGIN_VERSION env
                  then (None, g_module_close m (report filename IncompatibleVersion s1))
                  else
                    (let (init_failed, s2) =
                       (if type h = PLUGIN_TYPE_TRANSPORT \<or>
                           type h = PLUGIN_TYPE_PLAYLIST \<or>
                           type h = PLUGIN_TYPE_INPUT \<or>
                           type h = PLUGIN_TYPE_EFFECT
                        then (case init h of
                                None \<Rightarrow> (False, s1)
                              | Some ok \<Rightarrow> (\<not> ok, emit (EvInit h) s1))
                        else (False, s1))
                     in if init_failed
                        then (None, g_module_close m (report filename InitFailed s2))
                        else (Some h,
                              s2\<lparr>loaded_modules :=
                                   \<lparr>header = h, module = m\<rparr> # loaded_modules s2\<rparr>))))"

subsection \<open>plugin2_unload and plugin_system_cleanup\<close>

definition run_cleanup :: "Plugin \<Rightarrow> state \<Rightarrow> state" where
  "run_cleanup h s = (case cleanup h of None \<Rightarrow> s | Some _ \<Rightarrow> emit (EvCleanup h) s)"

definition plugin2_unload :: "env \<Rightarrow> LoadedModule \<Rightarrow> state \<Rightarrow> state" where
  "plugin2_unload env loaded s =
     (let h = header loaded;
          s1 = (case type h of
                  PLUGIN_TYPE_TRANSPORT \<Rightarrow> run_cleanup h s
                | PLUGIN_TYPE_PLAYLIST \<Rightarrow> run_cleanup h s
                | PLUGIN_TYPE_INPUT \<Rightarrow> run_cleanup h s
                | PLUGIN_TYPE_EFFECT \<Rightarrow> run_cleanup h s
                | _ \<Rightarrow> s)
      in if VALGRIND_FRIENDLY env then s1 else g_module_close (module loaded) s1)"

fun unload_nodes :: "env \<Rightarrow> LoadedModule list \<Rightarrow> state \<Rightarrow> state" where
  "unload_nodes env [] s = s"
| "unload_nodes env (node # rest) s = unload_nodes env rest (plugin2_unload env node s)"

definition plugin_system_cleanup :: "env \<Rightarrow> state \<Rightarrow> state" where
  "plugin_system_cleanup env s =
     (let s1 = emit EvRegistrySave s;
          s2 = unload_nodes env (loaded_modules s1) s1
      in s2\<lparr>loaded_modules := []\<rparr>)"

subsection \<open>Scanning and plugin_system_init\<close>

text \<open>
  The call \<open>plugin_register (path, st.st_mtime)\<close> converts the \<open>time_t\<close> to the \<open>int\<close> of
  the parameter: the low 32 bits are kept (\<open>scast\<close>).
\<close>

definition scan_plugin_func :: "env \<Rightarrow> string \<Rightarrow> string \<Rightarrow> state \<Rightarrow> bool \<times> state" where
  "scan_plugin_func env path basename s =
     (if \<not> str_has_suffix_nocase basename (PLUGIN_SUFFIX env) then (False, s)
      else case g_stat env path of
             None \<Rightarrow> (False, report path StatFailed s)
           | Some st \<Rightarrow>
               (False,
                if S_ISREG (st_mode st) then plugin_register path (scast (st_mtime st)) s
                else s))"

definition scan_plugins :: "env \<Rightarrow> string \<Rightarrow> state \<Rightarrow> state" where
  "scan_plugins env path s = dir_foreach env path (scan_plugin_func env) s"

fun scan_dirs :: "env \<Rightarrow> string \<Rightarrow> string list \<Rightarrow> state \<Rightarrow> state" where
  "scan_dirs env path [] s = s"
| "scan_dirs env path (d # ds) s =
     scan_dirs env path ds (scan_plugins env (filename_build env path d) s)"

text \<open>\<open>None\<close>: the assertion \<open>g_module_supported ()\<close> fails and the process aborts.\<close>

definition plugin_system_init :: "env \<Rightarrow> state \<Rightarrow> state option" where
  "plugin_system_init env s =
     (if \<not> g_module_supported env then None
      else
        (let s1 = emit EvRegistryLoad s;
             s2 = scan_dirs env (plugin_dir env) plugin_dir_list s1
         in Some (emit EvRegistryPrune s2)))"

subsection \<open>Sequences of operations\<close>

text \<open>
  What a caller can do with the loaded-set: load a file, or shut the plugin system down,
  which is the only way the file offers to unload.
\<close>

datatype operation = Load string | UnloadAll

fun run_ops :: "env \<Rightarrow> operation list \<Rightarrow> state \<Rightarrow> state" where
  "run_ops env [] s = s"
| "run_ops env (Load filename # ops) s = run_ops env ops (snd (plugin_load env filename s))"
| "run_ops env (UnloadAll # ops) s = run_ops env ops (plugin_system_cleanup env s)"

definition init_state :: state where
  "init_state = \<lparr>loaded_modules = [], trace = []\<rparr>"

section \<open>Reading the trace\<close>

text \<open>The outside calls made between a state and a later one.\<close>

definition emitted :: "state \<Rightarrow> state \<Rightarrow> event list" where
  "emitted s s' = drop (length (trace s)) (trace s')"

fun close_calls :: "event list \<Rightarrow> GModule list" where
  "close_calls [] = []"
| "close_calls (EvModuleClose m # es) = m # close_calls es"
| "close_calls (_ # es) = close_calls es"

fun init_calls :: "event list \<Rightarrow> Plugin list" where
  "init_calls [] = []"
| "init_calls (EvInit h # es) = h # init_calls es"
| "init_calls (_ # es) = init_calls es"

fun cleanup_calls :: "event list \<Rightarrow> Plugin list" where
  "cleanup_calls [] = []"
| "cleanup_calls (EvCleanup h # es) = h # cleanup_calls es"
| "cleanup_calls (_ # es) = cleanup_calls es"

fun is_unload_event :: "event \<Rightarrow> bool" where
  "is_unload_event (EvCleanup _) = True"
| "is_unload_event (EvModuleClose _) = True"
| "is_unload_event _ = False"

text \<open>The four kinds with hooks that run at load and unload time.\<close>

definition lifecycle_kind :: "PluginType \<Rightarrow> bool" where
  "lifecycle_kind t \<longleftrightarrow>
     t = PLUGIN_TYPE_TRANSPORT \<or> t = PLUGIN_TYPE_PLAYLIST \<or> t = PLUGIN_TYPE_INPUT \<or>
     t = PLUGIN_TYPE_EFFECT"

definition version_supported :: "env \<Rightarrow> Plugin \<Rightarrow> bool" where
  "version_supported env h \<longleftrightarrow>
     AUD_PLUGIN_VERSION_MIN env \<le> version h \<and> version h \<le> AUD_PLUGIN_VERSION env"

text \<open>The descriptor symbol is absent, or the descriptor's magic is not the constant.\<close>

definition descriptor_invalid :: "env \<Rightarrow> Plugin option \<Rightarrow> bool" where
  "descriptor_invalid env self =
     (case self of None \<Rightarrow> True | Some h \<Rightarrow> magic h \<noteq> AUD_PLUGIN_MAGIC env)"

text \<open>\<open>plugin_load\<close> returns \<open>NULL\<close> and has printed the message \<open>err\<close> about the file.\<close>

definition fails_with :: "env \<Rightarrow> string \<Rightarrow> state \<Rightarrow> error \<Rightarrow> bool" where
  "fails_with env filename s err \<longleftrightarrow>
     fst (plugin_load env filename s) = None \<and>
     EvError filename err \<in> set (emitted s (snd (plugin_load env filename s)))"

text \<open>The outside calls of \<open>plugin2_unload\<close> on one entry of the list.\<close>

definition unload_events :: "env \<Rightarrow> LoadedModule \<Rightarrow> event list" where
  "unload_events env l =
     (if lifecycle_kind (type (header l)) \<and> cleanup (header l) \<noteq> None
      then [EvCleanup (header l)] else []) @
     (if VALGRIND_FRIENDLY env then [] else [EvModuleClose (module l)])"

text \<open>
  The order the spec asks of a shutdown: the registry is saved, and no cleanup hook and
  no module close comes after the save.
\<close>

definition saved_after_unload :: "event list \<Rightarrow> bool" where
  "saved_after_unload tr \<longleftrightarrow>
     EvRegistrySave \<in> set tr \<and>
     filter is_unload_event (dropWhile (\<lambda>e. e \<noteq> EvRegistrySave) tr) = []"

text \<open>
  The order the code has: the registry is saved, and no cleanup hook and no module close
  comes before the save.
\<close>

definition saved_before_unload :: "event list \<Rightarrow> bool" where
  "saved_before_unload tr \<longleftrightarrow>
     EvRegistrySave \<in> set tr \<and>
     filter is_unload_event (takeWhile (\<lambda>e. e \<noteq> EvRegistrySave) tr) = []"

text \<open>
  The path of an entry of the loaded-set: the file name its module was opened with.
\<close>

definition loaded_path :: "LoadedModule \<Rightarrow> string" where
  "loaded_path l = file_name (module l)"

text \<open>
  A file that \<open>plugin_load\<close> accepts: it opens, exports a descriptor with the right magic
  and a supported version, and its init hook, if its kind has one, does not return false.
\<close>

definition loadable :: "env \<Rightarrow> string \<Rightarrow> bool" where
  "loadable env filename =
     (case shared_objects env filename of
        Some (Some h) \<Rightarrow>
          magic h = AUD_PLUGIN_MAGIC env \<and> version_supported env h \<and>
          \<not> (lifecycle_kind (type h) \<and> init h = Some False)
      | _ \<Rightarrow> False)"

text \<open>
  The paths loaded with success since the last shutdown, the newest first, after a
  sequence of operations that starts with the paths \<open>ps\<close>.
\<close>

fun held_paths :: "env \<Rightarrow> operation list \<Rightarrow> string list \<Rightarrow> string list" where
  "held_paths env [] ps = ps"
| "held_paths env (Load filename # ops) ps =
     held_paths env ops (if loadable env filename then filename # ps else ps)"
| "held_paths env (UnloadAll # ops) ps = held_paths env ops []"

text \<open>
  \<open>plugin_load\<close> gets as far as the init hook of a descriptor and finds one to call.
\<close>

definition init_hook_called :: "env \<Rightarrow> Plugin \<Rightarrow> bool" where
  "init_hook_called env h \<longleftrightarrow>
     magic h = AUD_PLUGIN_MAGIC env \<and> version_supported env h \<and>
     lifecycle_kind (type h) \<and> init h \<noteq> None"

text \<open>
  What the scanner is asked to find, in the words of the spec: a candidate is an entry
  whose name ends with the plugin suffix, whatever the case, and which \<open>g_stat\<close> (which
  follows symbolic links) shows to be a regular file. The spec has it registered under
  its path with its modification time (\<open>mtime_registration\<close>); the code registers the
  modification time as converted to \<open>int\<close> (\<open>registration\<close>), which is the same
  when the time fits 32 bits (\<open>mtime_fits_int\<close>). A stat failure is an entry with the
  suffix on which \<open>g_stat\<close> fails. The tree is made of the seven directories under the
  plugin directory.
\<close>

fun registrations :: "event list \<Rightarrow> (string \<times> int) list" where
  "registrations [] = []"
| "registrations (EvRegister path mtime # es) = (path, mtime) # registrations es"
| "registrations (_ # es) = registrations es"

fun stat_failures :: "event list \<Rightarrow> string list" where
  "stat_failures [] = []"
| "stat_failures (EvError path StatFailed # es) = path # stat_failures es"
| "stat_failures (_ # es) = stat_failures es"

fun scanned_dirs :: "event list \<Rightarrow> string list" where
  "scanned_dirs [] = []"
| "scanned_dirs (EvDirForeach dir # es) = dir # scanned_dirs es"
| "scanned_dirs (_ # es) = scanned_dirs es"

definition is_candidate :: "env \<Rightarrow> string \<times> string \<Rightarrow> bool" where
  "is_candidate env entry =
     (case entry of (path, basename) \<Rightarrow>
        str_has_suffix_nocase basename (PLUGIN_SUFFIX env) \<and>
        (case g_stat env path of None \<Rightarrow> False | Some st \<Rightarrow> S_ISREG (st_mode st)))"

definition stat_fails :: "env \<Rightarrow> string \<times> string \<Rightarrow> bool" where
  "stat_fails env entry =
     (case entry of (path, basename) \<Rightarrow>
        str_has_suffix_nocase basename (PLUGIN_SUFFIX env) \<and> g_stat env path = None)"

definition registration :: "env \<Rightarrow> string \<times> string \<Rightarrow> string \<times> int" where
  "registration env entry =
     (case entry of (path, basename) \<Rightarrow>
        (path, case g_stat env path of
                 None \<Rightarrow> 0
               | Some st \<Rightarrow> sint (scast (st_mtime st) :: 32 word)))"

definition mtime_registration :: "env \<Rightarrow> string \<times> string \<Rightarrow> string \<times> int" where
  "mtime_registration env entry =
     (case entry of (path, basename) \<Rightarrow>
        (path, case g_stat env path of None \<Rightarrow> 0 | Some st \<Rightarrow> sint (st_mtime st)))"

definition mtime_fits_int :: "env \<Rightarrow> string \<times> string \<Rightarrow> bool" where
  "mtime_fits_int env entry =
     (case entry of (path, basename) \<Rightarrow>
        (case g_stat env path of
           None \<Rightarrow> True
         | Some st \<Rightarrow> - (2 ^ 31) \<le> sint (st_mtime st) \<and> sint (st_mtime st) < 2 ^ 31))"

definition tree_entries :: "env \<Rightarrow> (string \<times> string) list" where
  "tree_entries env =
     concat (map (\<lambda>d. dir_entries env (filename_build env (plugin_dir env) d))
       [''Transport'', ''Container'', ''Input'', ''Output'', ''Effect'', ''General'',
        ''Visualization''])"

text \<open>The outside calls of \<open>scan_plugin_func\<close> on one entry, and of the scan of one directory.\<close>

definition scan_events :: "env \<Rightarrow> string \<times> string \<Rightarrow> event list" where
  "scan_events env entry =
     (if is_candidate env entry
      then [EvRegister (fst (registration env entry)) (snd (registration env entry))]
      else if stat_fails env entry then [EvError (fst entry) StatFailed]
      else [])"

definition scan_dir_events :: "env \<Rightarrow> string \<Rightarrow> event list" where
  "scan_dir_events env dir =
     EvDirForeach dir # concat (map (scan_events env) (dir_entries env dir))"

section \<open>An installation to run the code on\<close>

text \<open>
  The scenario of the spec: the supported versions are 1 to 10; \<open>a.so\<close> is a good input
  plugin of version 5, \<open>b.so\<close> has a bad magic, \<open>c.so\<close> has version 99. Besides,
  \<open>d.so\<close> has both a bad magic and version 99, the init hook of \<open>e.so\<close> refuses to
  start, \<open>f.so\<close> is a shared object that exports no descriptor, and \<open>g.so\<close> is a
  good general plugin.
\<close>

definition plugin_a :: Plugin where
  "plugin_a = \<lparr>magic = 0x8EAC8DE2, version = 5, type = PLUGIN_TYPE_INPUT,
     init = Some True, cleanup = Some ()\<rparr>"

definition plugin_b :: Plugin where
  "plugin_b = \<lparr>magic = 0xBAD, version = 5, type = PLUGIN_TYPE_INPUT,
     init = Some True, cleanup = Some ()\<rparr>"

definition plugin_c :: Plugin where
  "plugin_c = \<lparr>magic = 0x8EAC8DE2, version = 99, type = PLUGIN_TYPE_OUTPUT,
     init = None, cleanup = None\<rparr>"

definition plugin_d :: Plugin where
  "plugin_d = \<lparr>magic = 0xBAD, version = 99, type = PLUGIN_TYPE_OUTPUT,
     init = None, cleanup = None\<rparr>"

definition plugin_e :: Plugin where
  "plugin_e = \<lparr>magic = 0x8EAC8DE2, version = 10, type = PLUGIN_TYPE_EFFECT,
     init = Some False, cleanup = Some ()\<rparr>"

definition plugin_g :: Plugin where
  "plugin_g = \<lparr>magic = 0x8EAC8DE2, version = 1, type = PLUGIN_TYPE_GENERAL,
     init = Some False, cleanup = Some ()\<rparr>"

definition example_env :: env where
  "example_env =
     \<lparr>AUD_PLUGIN_MAGIC = 0x8EAC8DE2,
      AUD_PLUGIN_VERSION_MIN = 1,
      AUD_PLUGIN_VERSION = 10,
      PLUGIN_SUFFIX = ''.so'',
      VALGRIND_FRIENDLY = False,
      g_module_supported = True,
      shared_objects = map_of
        [(''a.so'', Some plugin_a), (''b.so'', Some plugin_b), (''c.so'', Some plugin_c),
         (''d.so'', Some plugin_d), (''e.so'', Some plugin_e), (''f.so'', None),
         (''g.so'', Some plugin_g)],
      g_stat = map_of
        [(''p/Input/a.so'', \<lparr>st_mode = 0x81A4, st_mtime = 1000\<rparr>),
         (''p/Input/B.SO'', \<lparr>st_mode = 0x81ED, st_mtime = 2000\<rparr>),
         (''p/Input/dir.so'', \<lparr>st_mode = 0x41ED, st_mtime = 3000\<rparr>),
         (''p/Input/readme.txt'', \<lparr>st_mode = 0x81A4, st_mtime = 4000\<rparr>)],
      dir_entries = (\<lambda>d. if d = ''p/Input''
         then [(''p/Input/a.so'', ''a.so''), (''p/Input/gone.so'', ''gone.so''),
               (''p/Input/B.SO'', ''B.SO''), (''p/Input/dir.so'', ''dir.so''),
               (''p/Input/readme.txt'', ''readme.txt'')]
         else []),
      plugin_dir = ''p'',
      filename_build = (\<lambda>path name. path @ ''/'' @ name)\<rparr>"

text \<open>
  The same installation with files in three of the directories, and the same again
  with \<open>c.so\<close> last modified on 1 January 2100 (4102444800 seconds after the epoch).
\<close>

definition tree_env :: env where
  "tree_env = example_env
     \<lparr>g_stat := map_of
        [(''p/Input/a.so'', \<lparr>st_mode = 0x81A4, st_mtime = 1000\<rparr>),
         (''p/Input/B.SO'', \<lparr>st_mode = 0x81ED, st_mtime = 2000\<rparr>),
         (''p/Input/dir.so'', \<lparr>st_mode = 0x41ED, st_mtime = 3000\<rparr>),
         (''p/Input/readme.txt'', \<lparr>st_mode = 0x81A4, st_mtime = 4000\<rparr>),
         (''p/Output/c.so'', \<lparr>st_mode = 0x81A4, st_mtime = 5000\<rparr>),
         (''p/Effect/e.so'', \<lparr>st_mode = 0x81A4, st_mtime = 6000\<rparr>)],
      dir_entries := (\<lambda>d.
         if d = ''p/Output''
         then [(''p/Output/c.so'', ''c.so''), (''p/Output/lost.so'', ''lost.so'')]
         else if d = ''p/Effect'' then [(''p/Effect/e.so'', ''e.so'')]
         else dir_entries example_env d)\<rparr>"

definition late_env :: env where
  "late_env = tree_env
     \<lparr>g_stat := (g_stat tree_env)
        (''p/Output/c.so'' \<mapsto> \<lparr>st_mode = 0x81A4, st_mtime = 4102444800\<rparr>)\<rparr>"

text \<open>
  The states after \<open>a.so\<close> has been loaded, after \<open>a.so\<close> has been loaded twice, and
  after \<open>a.so\<close> and \<open>g.so\<close> have been loaded.
\<close>

definition state_a :: state where
  "state_a = snd (plugin_load example_env ''a.so'' init_state)"

definition state_aa :: state where
  "state_aa = run_ops example_env [Load ''a.so'', Load ''a.so''] init_state"

definition state_ag :: state where
  "state_ag = run_ops example_env [Load ''a.so'', Load ''g.so''] init_state"

section \<open>Properties\<close>

subsection \<open>The trace of each function\<close>

lemma trace_emit [simp]: "trace (emit e s) = trace s @ [e]"
  by (simp add: emit_def)

lemma loaded_modules_emit [simp]: "loaded_modules (emit e s) = loaded_modules s"
  by (simp add: emit_def)

lemma emitted_append [simp]: "trace s' = trace s @ evs \<Longrightarrow> emitted s s' = evs"
  by (simp add: emitted_def)

lemma cleanup_calls_append [simp]:
  "cleanup_calls (xs @ ys) = cleanup_calls xs @ cleanup_calls ys"
  by (induction xs rule: cleanup_calls.induct) simp_all

lemma close_calls_append [simp]:
  "close_calls (xs @ ys) = close_calls xs @ close_calls ys"
  by (induction xs rule: close_calls.induct) simp_all

lemma trace_plugin2_unload:
  "trace (plugin2_unload env l s) = trace s @ unload_events env l"
  by (cases "type (header l)")
     (simp_all add: plugin2_unload_def unload_events_def run_cleanup_def g_module_close_def
        lifecycle_kind_def Let_def split: option.split)

lemma loaded_modules_plugin2_unload [simp]:
  "loaded_modules (plugin2_unload env l s) = loaded_modules s"
  by (cases "type (header l)")
     (simp_all add: plugin2_unload_def run_cleanup_def g_module_close_def Let_def
        split: option.split)

lemma trace_unload_nodes:
  "trace (unload_nodes env ls s) = trace s @ concat (map (unload_events env) ls)"
  by (induction ls arbitrary: s) (simp_all add: trace_plugin2_unload)

lemma loaded_modules_unload_nodes [simp]:
  "loaded_modules (unload_nodes env ls s) = loaded_modules s"
  by (induction ls arbitrary: s) simp_all

lemma trace_plugin_system_cleanup:
  "trace (plugin_system_cleanup env s) =
     trace s @ EvRegistrySave # concat (map (unload_events env) (loaded_modules s))"
  by (simp add: plugin_system_cleanup_def Let_def trace_unload_nodes)

lemma loaded_modules_plugin_system_cleanup [simp]:
  "loaded_modules (plugin_system_cleanup env s) = []"
  by (simp add: plugin_system_cleanup_def Let_def)

lemma trace_plugin_system_cleanup_twice:
  "trace (plugin_system_cleanup env (plugin_system_cleanup env s)) =
     trace s @ EvRegistrySave # concat (map (unload_events env) (loaded_modules s)) @
     [EvRegistrySave]"
  by (simp add: trace_plugin_system_cleanup)

lemma cleanup_calls_unload_events:
  "cleanup_calls (concat (map (unload_events env) ls)) =
     map header (filter (\<lambda>l. lifecycle_kind (type (header l)) \<and> cleanup (header l) \<noteq> None) ls)"
  by (induction ls) (simp_all add: unload_events_def)

lemma close_calls_unload_events:
  "close_calls (concat (map (unload_events env) ls)) =
     (if VALGRIND_FRIENDLY env then [] else map module ls)"
  by (induction ls) (simp_all add: unload_events_def)

lemma count_list_distinct: "distinct xs \<Longrightarrow> count_list xs x \<le> Suc 0"
  by (induction xs) auto

subsection \<open>The four ways through plugin_load once the module is open\<close>

lemma plugin_load_open_failed:
  "shared_objects env filename = None \<Longrightarrow>
   plugin_load env filename s = (None, emit (EvError filename OpenFailed) s)"
  by (simp add: plugin_load_def g_module_open_def report_def)

lemma plugin_load_not_a_plugin:
  assumes "shared_objects env filename = Some self"
    and "descriptor_invalid env self"
  shows "plugin_load env filename s =
     (None, s\<lparr>trace := trace s @
        [EvModuleOpen \<lparr>file_name = filename, aud_plugin_self = self\<rparr>,
         EvError filename NotAPlugin,
         EvModuleClose \<lparr>file_name = filename, aud_plugin_self = self\<rparr>]\<rparr>)"
proof (cases self)
  case None
  with assms(1) show ?thesis
    by (simp add: plugin_load_def g_module_open_def report_def g_module_close_def emit_def)
next
  case (Some h)
  with assms show ?thesis
    by (simp add: plugin_load_def g_module_open_def report_def g_module_close_def emit_def
        descriptor_invalid_def)
qed

lemma plugin_load_incompatible:
  assumes "shared_objects env filename = Some (Some h)"
    and "magic h = AUD_PLUGIN_MAGIC env" and "\<not> version_supported env h"
  shows "plugin_load env filename s =
     (None, s\<lparr>trace := trace s @
        [EvModuleOpen \<lparr>file_name = filename, aud_plugin_self = Some h\<rparr>,
         EvError filename IncompatibleVersion,
         EvModuleClose \<lparr>file_name = filename, aud_plugin_self = Some h\<rparr>]\<rparr>)"
  using assms
  by (auto simp add: plugin_load_def g_module_open_def report_def g_module_close_def emit_def
      Let_def version_supported_def)

lemma plugin_load_init_failed:
  assumes "shared_objects env filename = Some (Some h)"
    and "magic h = AUD_PLUGIN_MAGIC env" and "version_supported env h"
    and "lifecycle_kind (type h)" and "init h = Some False"
  shows "plugin_load env filename s =
     (None, s\<lparr>trace := trace s @
        [EvModuleOpen \<lparr>file_name = filename, aud_plugin_self = Some h\<rparr>,
         EvInit h,
         EvError filename InitFailed,
         EvModuleClose \<lparr>file_name = filename, aud_plugin_self = Some h\<rparr>]\<rparr>)"
  using assms
  by (auto simp add: plugin_load_def g_module_open_def report_def g_module_close_def emit_def
      Let_def version_supported_def lifecycle_kind_def)

lemma plugin_load_ok:
  assumes "shared_objects env filename = Some (Some h)"
    and "magic h = AUD_PLUGIN_MAGIC env" and "version_supported env h"
    and "\<not> (lifecycle_kind (type h) \<and> init h = Some False)"
  shows "plugin_load env filename s =
     (Some h,
      \<lparr>loaded_modules =
         \<lparr>header = h, module = \<lparr>file_name = filename, aud_plugin_self = Some h\<rparr>\<rparr> #
         loaded_modules s,
       trace = trace s @
         EvModuleOpen \<lparr>file_name = filename, aud_plugin_self = Some h\<rparr> #
         (if lifecycle_kind (type h) \<and> init h \<noteq> None then [EvInit h] else [])\<rparr>)"
  using assms
  by (cases "init h")
     (auto simp add: plugin_load_def g_module_open_def report_def g_module_close_def emit_def
      Let_def version_supported_def lifecycle_kind_def)

lemma init_state_simps [simp]:
  "loaded_modules init_state = []" "trace init_state = []"
  by (simp_all add: init_state_def)

lemma init_calls_append [simp]:
  "init_calls (xs @ ys) = init_calls xs @ init_calls ys"
  by (induction xs rule: init_calls.induct) simp_all

lemma plugin_load_cases:
  obtains (open_failed) "shared_objects env filename = None"
  | (not_a_plugin) self where "shared_objects env filename = Some self"
      "descriptor_invalid env self"
  | (incompatible) h where "shared_objects env filename = Some (Some h)"
      "magic h = AUD_PLUGIN_MAGIC env" "\<not> version_supported env h"
  | (init_failed) h where "shared_objects env filename = Some (Some h)"
      "magic h = AUD_PLUGIN_MAGIC env" "version_supported env h"
      "lifecycle_kind (type h)" "init h = Some False"
  | (ok) h where "shared_objects env filename = Some (Some h)"
      "magic h = AUD_PLUGIN_MAGIC env" "version_supported env h"
      "\<not> (lifecycle_kind (type h) \<and> init h = Some False)"
proof (cases "shared_objects env filename")
  case None
  then show ?thesis by (rule open_failed)
next
  case (Some self)
  show ?thesis
  proof (cases "descriptor_invalid env self")
    case True
    with Some show ?thesis by (rule not_a_plugin)
  next
    case False
    then obtain h where "self = Some h" and m: "magic h = AUD_PLUGIN_MAGIC env"
      by (auto simp add: descriptor_invalid_def split: option.splits)
    with Some have so: "shared_objects env filename = Some (Some h)"
      by simp
    show ?thesis
    proof (cases "version_supported env h")
      case False
      with so m show ?thesis by (rule incompatible)
    next
      case True
      show ?thesis
      proof (cases "lifecycle_kind (type h) \<and> init h = Some False")
        case True
        with so m \<open>version_supported env h\<close> show ?thesis
          by (blast intro: init_failed)
      next
        case False
        with so m True show ?thesis by (rule ok)
      qed
    qed
  qed
qed

lemma state_a_eq:
  "state_a = \<lparr>loaded_modules =
       [\<lparr>header = plugin_a, module = \<lparr>file_name = ''a.so'', aud_plugin_self = Some plugin_a\<rparr>\<rparr>],
     trace = [EvModuleOpen \<lparr>file_name = ''a.so'', aud_plugin_self = Some plugin_a\<rparr>,
              EvInit plugin_a]\<rparr>"
  by (simp add: state_a_def example_env_def plugin_a_def init_state_def plugin_load_def
      g_module_open_def emit_def)

lemma loaded_modules_state_aa:
  "loaded_modules state_aa =
     [\<lparr>header = plugin_a, module = \<lparr>file_name = ''a.so'', aud_plugin_self = Some plugin_a\<rparr>\<rparr>,
      \<lparr>header = plugin_a, module = \<lparr>file_name = ''a.so'', aud_plugin_self = Some plugin_a\<rparr>\<rparr>]"
proof -
  have a: "shared_objects example_env ''a.so'' = Some (Some plugin_a)"
    by (simp add: example_env_def)
  have ok: "magic plugin_a = AUD_PLUGIN_MAGIC example_env"
    "version_supported example_env plugin_a"
    "\<not> (lifecycle_kind (type plugin_a) \<and> init plugin_a = Some False)"
    by (simp_all add: plugin_a_def example_env_def version_supported_def)
  show ?thesis
    by (simp add: state_aa_def plugin_load_ok [OF a ok])
qed

lemma loaded_modules_state_ag:
  "loaded_modules state_ag =
     [\<lparr>header = plugin_g, module = \<lparr>file_name = ''g.so'', aud_plugin_self = Some plugin_g\<rparr>\<rparr>,
      \<lparr>header = plugin_a, module = \<lparr>file_name = ''a.so'', aud_plugin_self = Some plugin_a\<rparr>\<rparr>]"
proof -
  have a: "shared_objects example_env ''a.so'' = Some (Some plugin_a)"
    and g: "shared_objects example_env ''g.so'' = Some (Some plugin_g)"
    by (simp_all add: example_env_def)
  have oka: "magic plugin_a = AUD_PLUGIN_MAGIC example_env"
    "version_supported example_env plugin_a"
    "\<not> (lifecycle_kind (type plugin_a) \<and> init plugin_a = Some False)"
    by (simp_all add: plugin_a_def example_env_def version_supported_def)
  have okg: "magic plugin_g = AUD_PLUGIN_MAGIC example_env"
    "version_supported example_env plugin_g"
    "\<not> (lifecycle_kind (type plugin_g) \<and> init plugin_g = Some False)"
    by (simp_all add: plugin_g_def example_env_def version_supported_def lifecycle_kind_def)
  show ?thesis
    by (simp add: state_ag_def plugin_load_ok [OF a oka] plugin_load_ok [OF g okg])
qed

subsection \<open>Shutdown\<close>

text \<open>
  C1, as the code has it: \<open>plugin_system_cleanup\<close> saves the registry first; then, for
  each entry of the loaded-set in list order, it runs the cleanup hook (for the four kinds
  that have one, when the hook is there) and closes the module. So the save comes before
  every cleanup hook and every module close of the shutdown, not after them.
\<close>

theorem plugin_system_cleanup_saves_first:
  "emitted s (plugin_system_cleanup env s) =
     EvRegistrySave # concat (map (unload_events env) (loaded_modules s)) \<and>
   saved_before_unload (emitted s (plugin_system_cleanup env s))"
  by (simp add: trace_plugin_system_cleanup saved_before_unload_def)

text \<open>
  C1 as the spec states it (the save comes after the cleanup hooks and the module closes)
  fails once one plugin is loaded: after \<open>a.so\<close> has been loaded, the shutdown saves the
  registry, then calls the cleanup hook of \<open>a.so\<close>, then closes its module.
\<close>

theorem save_after_unload_counterexample:
  "emitted state_a (plugin_system_cleanup example_env state_a) =
     [EvRegistrySave, EvCleanup plugin_a,
      EvModuleClose \<lparr>file_name = ''a.so'', aud_plugin_self = Some plugin_a\<rparr>] \<and>
   \<not> saved_after_unload (emitted state_a (plugin_system_cleanup example_env state_a))"
proof -
  have "emitted state_a (plugin_system_cleanup example_env state_a) =
     [EvRegistrySave, EvCleanup plugin_a,
      EvModuleClose \<lparr>file_name = ''a.so'', aud_plugin_self = Some plugin_a\<rparr>]"
    by (simp add: trace_plugin_system_cleanup state_a_eq unload_events_def lifecycle_kind_def)
       (simp add: plugin_a_def example_env_def)
  then show ?thesis
    by (simp add: saved_after_unload_def)
qed

text \<open>
  C6: whatever the loaded-set holds, the shutdown calls the cleanup hook once for each
  entry whose kind is Transport, Playlist, Input or Effect and whose hook is there, and
  for no other entry; afterwards the loaded-set is empty.
\<close>

theorem unload_all_cleanup_once:
  "cleanup_calls (emitted s (plugin_system_cleanup env s)) =
     map header
       (filter (\<lambda>l. lifecycle_kind (type (header l)) \<and> cleanup (header l) \<noteq> None)
          (loaded_modules s)) \<and>
   loaded_modules (plugin_system_cleanup env s) = []"
  by (simp add: trace_plugin_system_cleanup cleanup_calls_unload_events)

text \<open>
  C7, as the code has it: a second shutdown right after a first one only saves the
  registry again: it calls no cleanup hook and closes no module. Over the two shutdowns
  together \<open>g_module_close\<close> is called once for each entry of the loaded-set (never, when
  the build is \<open>VALGRIND_FRIENDLY\<close>). So a handle is closed at most once when no two
  entries of the loaded-set hold the same handle.
\<close>

theorem unload_all_idempotent:
  "emitted (plugin_system_cleanup env s)
     (plugin_system_cleanup env (plugin_system_cleanup env s)) = [EvRegistrySave] \<and>
   close_calls (emitted s (plugin_system_cleanup env (plugin_system_cleanup env s))) =
     (if VALGRIND_FRIENDLY env then [] else map module (loaded_modules s)) \<and>
   (distinct (map module (loaded_modules s)) \<longrightarrow>
      count_list
        (close_calls (emitted s (plugin_system_cleanup env (plugin_system_cleanup env s)))) m
      \<le> 1)"
proof -
  have second: "emitted (plugin_system_cleanup env s)
     (plugin_system_cleanup env (plugin_system_cleanup env s)) = [EvRegistrySave]"
    by (simp add: trace_plugin_system_cleanup)
  have both: "close_calls
       (emitted s (plugin_system_cleanup env (plugin_system_cleanup env s))) =
     (if VALGRIND_FRIENDLY env then [] else map module (loaded_modules s))"
    by (simp add: trace_plugin_system_cleanup_twice close_calls_unload_events)
  show ?thesis
    by (simp only: second both) (simp add: count_list_distinct)
qed

theorem unload_all_idempotent_witness:
  "distinct (map module (loaded_modules state_ag)) \<and>
   emitted (plugin_system_cleanup example_env state_ag)
     (plugin_system_cleanup example_env (plugin_system_cleanup example_env state_ag)) =
     [EvRegistrySave] \<and>
   close_calls (emitted state_ag
     (plugin_system_cleanup example_env (plugin_system_cleanup example_env state_ag))) =
     [\<lparr>file_name = ''g.so'', aud_plugin_self = Some plugin_g\<rparr>,
      \<lparr>file_name = ''a.so'', aud_plugin_self = Some plugin_a\<rparr>] \<and>
   count_list
     (close_calls (emitted state_ag
        (plugin_system_cleanup example_env (plugin_system_cleanup example_env state_ag))))
     \<lparr>file_name = ''a.so'', aud_plugin_self = Some plugin_a\<rparr> \<le> 1"
proof -
  have v: "\<not> VALGRIND_FRIENDLY example_env"
    by (simp add: example_env_def)
  from unload_all_idempotent
    [of example_env state_ag "\<lparr>file_name = ''a.so'', aud_plugin_self = Some plugin_a\<rparr>"]
  show ?thesis
    by (simp add: loaded_modules_state_ag v)
qed

text \<open>
  C7 as the spec states it (every module handle is closed at most once across repeated
  shutdowns) fails when the loaded-set holds a handle twice: after \<open>a.so\<close> has been
  loaded twice, two shutdowns in a row close the handle of \<open>a.so\<close> twice, both times in
  the first shutdown.
\<close>

theorem handle_closed_twice_counterexample:
  "close_calls (emitted state_aa
     (plugin_system_cleanup example_env (plugin_system_cleanup example_env state_aa))) =
     [\<lparr>file_name = ''a.so'', aud_plugin_self = Some plugin_a\<rparr>,
      \<lparr>file_name = ''a.so'', aud_plugin_self = Some plugin_a\<rparr>] \<and>
   count_list
     (close_calls (emitted state_aa
        (plugin_system_cleanup example_env (plugin_system_cleanup example_env state_aa))))
     \<lparr>file_name = ''a.so'', aud_plugin_self = Some plugin_a\<rparr> = 2"
proof -
  have v: "\<not> VALGRIND_FRIENDLY example_env"
    by (simp add: example_env_def)
  have "close_calls (emitted state_aa
      (plugin_system_cleanup example_env (plugin_system_cleanup example_env state_aa))) =
    map module (loaded_modules state_aa)"
    by (simp add: trace_plugin_system_cleanup_twice close_calls_unload_events v)
  then show ?thesis
    by (simp add: loaded_modules_state_aa)
qed

subsection \<open>Loading\<close>

text \<open>
  C3: a module that exports the descriptor with the right magic and a version from
  \<open>_AUD_PLUGIN_VERSION_MIN\<close> to \<open>_AUD_PLUGIN_VERSION\<close>, and whose init hook does not
  return false when its kind has one, is loaded: \<open>plugin_load\<close> returns the descriptor and
  puts the descriptor and the module handle at the front of the loaded-set.
\<close>

theorem plugin_load_valid_succeeds:
  assumes "shared_objects env filename = Some (Some h)"
    and "magic h = AUD_PLUGIN_MAGIC env"
    and "AUD_PLUGIN_VERSION_MIN env \<le> version h"
    and "version h \<le> AUD_PLUGIN_VERSION env"
    and "lifecycle_kind (type h) \<longrightarrow> init h \<noteq> Some False"
  shows "fst (plugin_load env filename s) = Some h \<and>
         loaded_modules (snd (plugin_load env filename s)) =
           \<lparr>header = h, module = \<lparr>file_name = filename, aud_plugin_self = Some h\<rparr>\<rparr> #
           loaded_modules s"
proof -
  from assms(3,4) have "version_supported env h"
    by (simp add: version_supported_def)
  moreover from assms(5) have "\<not> (lifecycle_kind (type h) \<and> init h = Some False)"
    by simp
  ultimately show ?thesis
    using assms(1,2) by (simp add: plugin_load_ok)
qed

theorem plugin_load_valid_succeeds_witness:
  "fst (plugin_load example_env ''a.so'' init_state) = Some plugin_a \<and>
   loaded_modules (snd (plugin_load example_env ''a.so'' init_state)) =
     [\<lparr>header = plugin_a, module = \<lparr>file_name = ''a.so'', aud_plugin_self = Some plugin_a\<rparr>\<rparr>]"
  using plugin_load_valid_succeeds [of example_env "''a.so''" plugin_a init_state]
  by (simp add: example_env_def plugin_a_def init_state_def lifecycle_kind_def)

text \<open>
  C4, as the code has it: \<open>plugin_load\<close> fails with NotAPlugin exactly when the module
  opens and the descriptor symbol is absent or the magic mismatches; it fails with
  IncompatibleVersion exactly when the descriptor is there with the right magic and its
  version is outside the supported range (the magic is checked first, so a descriptor
  with a bad magic is NotAPlugin whatever its version); and no failed call changes the
  loaded-set.
\<close>

theorem plugin_load_validation_errors:
  "(fails_with env filename s NotAPlugin \<longleftrightarrow>
      (case shared_objects env filename of
         None \<Rightarrow> False
       | Some self \<Rightarrow> descriptor_invalid env self)) \<and>
   (fails_with env filename s IncompatibleVersion \<longleftrightarrow>
      (case shared_objects env filename of
         Some (Some h) \<Rightarrow> magic h = AUD_PLUGIN_MAGIC env \<and> \<not> version_supported env h
       | _ \<Rightarrow> False)) \<and>
   (fst (plugin_load env filename s) = None \<longrightarrow>
      loaded_modules (snd (plugin_load env filename s)) = loaded_modules s)"
proof (cases "shared_objects env filename")
  case None
  then show ?thesis
    by (simp add: fails_with_def plugin_load_open_failed)
next
  case (Some self)
  show ?thesis
  proof (cases "descriptor_invalid env self")
    case True
    from plugin_load_not_a_plugin [OF Some True, of s] Some True show ?thesis
      by (auto simp add: fails_with_def descriptor_invalid_def split: option.splits)
  next
    case False
    then obtain h where self: "self = Some h" and magic: "magic h = AUD_PLUGIN_MAGIC env"
      by (auto simp add: descriptor_invalid_def split: option.splits)
    from Some self have so: "shared_objects env filename = Some (Some h)"
      by simp
    show ?thesis
    proof (cases "version_supported env h")
      case False
      from plugin_load_incompatible [OF so magic False, of s] so magic False self show ?thesis
        by (simp add: fails_with_def descriptor_invalid_def)
    next
      case True
      show ?thesis
      proof (cases "lifecycle_kind (type h) \<and> init h = Some False")
        case True
        then have "lifecycle_kind (type h)" and "init h = Some False"
          by simp_all
        from plugin_load_init_failed [OF so magic \<open>version_supported env h\<close> this, of s]
          so magic \<open>version_supported env h\<close> self
        show ?thesis
          by (simp add: fails_with_def descriptor_invalid_def)
      next
        case False
        from plugin_load_ok [OF so magic True False, of s] so magic True self
        show ?thesis
          by (simp add: fails_with_def descriptor_invalid_def)
      qed
    qed
  qed
qed

theorem plugin_load_validation_errors_witness:
  "fails_with example_env ''b.so'' init_state NotAPlugin \<and>
   fails_with example_env ''f.so'' init_state NotAPlugin \<and>
   fails_with example_env ''c.so'' init_state IncompatibleVersion \<and>
   fst (plugin_load example_env ''c.so'' init_state) = None \<and>
   loaded_modules (snd (plugin_load example_env ''c.so'' init_state)) = []"
  using plugin_load_validation_errors [of example_env "''b.so''" init_state]
    plugin_load_validation_errors [of example_env "''f.so''" init_state]
    plugin_load_validation_errors [of example_env "''c.so''" init_state]
  by (simp add: example_env_def plugin_b_def plugin_c_def init_state_def
      descriptor_invalid_def version_supported_def fails_with_def)

text \<open>
  C4 as the spec states it (IncompatibleVersion exactly when the version is outside the
  range) fails on \<open>d.so\<close>: its version 99 is above the current version 10, and the call
  fails with NotAPlugin, not with IncompatibleVersion, because its magic is bad too.
\<close>

theorem incompatible_version_counterexample:
  "shared_objects example_env ''d.so'' = Some (Some plugin_d) \<and>
   AUD_PLUGIN_VERSION example_env < version plugin_d \<and>
   \<not> fails_with example_env ''d.so'' init_state IncompatibleVersion \<and>
   fails_with example_env ''d.so'' init_state NotAPlugin"
  by (simp add: example_env_def plugin_d_def init_state_def fails_with_def plugin_load_def
      g_module_open_def g_module_close_def report_def emit_def emitted_def)

text \<open>
  C5: \<open>plugin_load\<close> calls the init hook only when the descriptor has passed the magic
  and version checks, its kind is Transport, Playlist, Input or Effect, and the hook is
  there; it then calls it once. When the hook returns false, the call fails with
  InitFailed, the module is closed, and the loaded-set is as it was.
\<close>

theorem plugin_load_init_hook:
  "init_calls (emitted s (snd (plugin_load env filename s))) =
     (case shared_objects env filename of
        Some (Some h) \<Rightarrow> if init_hook_called env h then [h] else []
      | _ \<Rightarrow> []) \<and>
   (shared_objects env filename = Some (Some h) \<and> init_hook_called env h \<and>
    init h = Some False \<longrightarrow>
      fails_with env filename s InitFailed \<and>
      close_calls (emitted s (snd (plugin_load env filename s))) =
        [\<lparr>file_name = filename, aud_plugin_self = Some h\<rparr>] \<and>
      loaded_modules (snd (plugin_load env filename s)) = loaded_modules s)"
proof (cases env filename rule: plugin_load_cases)
  case open_failed
  then show ?thesis
    by (simp add: plugin_load_open_failed)
next
  case (not_a_plugin self)
  then show ?thesis
    by (cases self)
       (auto simp add: plugin_load_not_a_plugin init_hook_called_def descriptor_invalid_def)
next
  case (incompatible h')
  then show ?thesis
    by (auto simp add: plugin_load_incompatible init_hook_called_def)
next
  case (init_failed h')
  then show ?thesis
    by (auto simp add: plugin_load_init_failed init_hook_called_def fails_with_def)
next
  case (ok h')
  then show ?thesis
    by (auto simp add: plugin_load_ok init_hook_called_def)
qed

theorem plugin_load_init_hook_witness:
  "shared_objects example_env ''e.so'' = Some (Some plugin_e) \<and>
   init_hook_called example_env plugin_e \<and> init plugin_e = Some False \<and>
   init_calls (emitted init_state (snd (plugin_load example_env ''e.so'' init_state))) =
     [plugin_e] \<and>
   fails_with example_env ''e.so'' init_state InitFailed \<and>
   close_calls (emitted init_state (snd (plugin_load example_env ''e.so'' init_state))) =
     [\<lparr>file_name = ''e.so'', aud_plugin_self = Some plugin_e\<rparr>] \<and>
   loaded_modules (snd (plugin_load example_env ''e.so'' init_state)) = []"
  using plugin_load_init_hook [of init_state example_env "''e.so''" plugin_e]
  by (simp add: example_env_def plugin_e_def init_state_def init_hook_called_def
      version_supported_def lifecycle_kind_def)

text \<open>
  C10: when \<open>plugin_load\<close> returns \<open>NULL\<close> although the module could be opened, the
  failure is one of NotAPlugin, IncompatibleVersion and InitFailed; the call closes the
  module it opened exactly once, as its last outside call, and leaves the loaded-set as
  it was.
\<close>

theorem plugin_load_failure_closes_module:
  assumes "shared_objects env filename = Some self"
    and "fst (plugin_load env filename s) = None"
  shows "close_calls (emitted s (snd (plugin_load env filename s))) =
           [\<lparr>file_name = filename, aud_plugin_self = self\<rparr>] \<and>
         last (emitted s (snd (plugin_load env filename s))) =
           EvModuleClose \<lparr>file_name = filename, aud_plugin_self = self\<rparr> \<and>
         loaded_modules (snd (plugin_load env filename s)) = loaded_modules s \<and>
         (fails_with env filename s NotAPlugin \<or>
          fails_with env filename s IncompatibleVersion \<or>
          fails_with env filename s InitFailed)"
proof (cases env filename rule: plugin_load_cases)
  case open_failed
  with assms(1) show ?thesis by simp
next
  case (not_a_plugin self')
  from assms(1) not_a_plugin(1) have "self' = self"
    by simp
  with not_a_plugin show ?thesis
    by (simp add: plugin_load_not_a_plugin fails_with_def)
next
  case (incompatible h)
  from assms(1) incompatible(1) have "self = Some h"
    by simp
  with incompatible show ?thesis
    by (simp add: plugin_load_incompatible fails_with_def)
next
  case (init_failed h)
  from assms(1) init_failed(1) have "self = Some h"
    by simp
  with init_failed show ?thesis
    by (simp add: plugin_load_init_failed fails_with_def)
next
  case (ok h)
  with assms(2) show ?thesis
    by (simp add: plugin_load_ok)
qed

theorem plugin_load_failure_closes_module_witness:
  "(fails_with example_env ''b.so'' init_state NotAPlugin \<and>
    close_calls (emitted init_state (snd (plugin_load example_env ''b.so'' init_state))) =
      [\<lparr>file_name = ''b.so'', aud_plugin_self = Some plugin_b\<rparr>] \<and>
    loaded_modules (snd (plugin_load example_env ''b.so'' init_state)) = []) \<and>
   (fails_with example_env ''c.so'' init_state IncompatibleVersion \<and>
    close_calls (emitted init_state (snd (plugin_load example_env ''c.so'' init_state))) =
      [\<lparr>file_name = ''c.so'', aud_plugin_self = Some plugin_c\<rparr>] \<and>
    loaded_modules (snd (plugin_load example_env ''c.so'' init_state)) = []) \<and>
   (fails_with example_env ''e.so'' init_state InitFailed \<and>
    close_calls (emitted init_state (snd (plugin_load example_env ''e.so'' init_state))) =
      [\<lparr>file_name = ''e.so'', aud_plugin_self = Some plugin_e\<rparr>] \<and>
    loaded_modules (snd (plugin_load example_env ''e.so'' init_state)) = [])"
proof -
  have b: "shared_objects example_env ''b.so'' = Some (Some plugin_b)"
    and c: "shared_objects example_env ''c.so'' = Some (Some plugin_c)"
    and e: "shared_objects example_env ''e.so'' = Some (Some plugin_e)"
    by (simp_all add: example_env_def)
  have fb: "plugin_load example_env ''b.so'' init_state =
      (None, init_state\<lparr>trace := trace init_state @
        [EvModuleOpen \<lparr>file_name = ''b.so'', aud_plugin_self = Some plugin_b\<rparr>,
         EvError ''b.so'' NotAPlugin,
         EvModuleClose \<lparr>file_name = ''b.so'', aud_plugin_self = Some plugin_b\<rparr>]\<rparr>)"
    by (rule plugin_load_not_a_plugin [OF b])
       (simp add: descriptor_invalid_def plugin_b_def example_env_def)
  have fc: "plugin_load example_env ''c.so'' init_state =
      (None, init_state\<lparr>trace := trace init_state @
        [EvModuleOpen \<lparr>file_name = ''c.so'', aud_plugin_self = Some plugin_c\<rparr>,
         EvError ''c.so'' IncompatibleVersion,
         EvModuleClose \<lparr>file_name = ''c.so'', aud_plugin_self = Some plugin_c\<rparr>]\<rparr>)"
    by (rule plugin_load_incompatible [OF c])
       (simp_all add: version_supported_def plugin_c_def example_env_def)
  have fe: "plugin_load example_env ''e.so'' init_state =
      (None, init_state\<lparr>trace := trace init_state @
        [EvModuleOpen \<lparr>file_name = ''e.so'', aud_plugin_self = Some plugin_e\<rparr>,
         EvInit plugin_e,
         EvError ''e.so'' InitFailed,
         EvModuleClose \<lparr>file_name = ''e.so'', aud_plugin_self = Some plugin_e\<rparr>]\<rparr>)"
    by (rule plugin_load_init_failed [OF e])
       (simp_all add: version_supported_def lifecycle_kind_def plugin_e_def example_env_def)
  from plugin_load_failure_closes_module [OF b, of init_state]
    plugin_load_failure_closes_module [OF c, of init_state]
    plugin_load_failure_closes_module [OF e, of init_state]
  show ?thesis
    by (simp add: fb fc fe fails_with_def)
qed

subsection \<open>The paths in the loaded-set\<close>

lemma plugin_load_succeeds_iff:
  "fst (plugin_load env filename s) \<noteq> None \<longleftrightarrow> loadable env filename"
proof (cases env filename rule: plugin_load_cases)
  case open_failed
  then show ?thesis by (simp add: plugin_load_open_failed loadable_def)
next
  case (not_a_plugin self)
  then show ?thesis
    by (cases self)
       (simp_all add: plugin_load_not_a_plugin loadable_def descriptor_invalid_def)
next
  case (incompatible h)
  then show ?thesis by (simp add: plugin_load_incompatible loadable_def)
next
  case (init_failed h)
  then show ?thesis by (simp add: plugin_load_init_failed loadable_def)
next
  case (ok h)
  then show ?thesis by (simp add: plugin_load_ok loadable_def)
qed

lemma paths_plugin_load:
  "map loaded_path (loaded_modules (snd (plugin_load env filename s))) =
     (if loadable env filename then filename # map loaded_path (loaded_modules s)
      else map loaded_path (loaded_modules s))"
proof (cases env filename rule: plugin_load_cases)
  case open_failed
  then show ?thesis by (simp add: plugin_load_open_failed loadable_def)
next
  case (not_a_plugin self)
  then show ?thesis
    by (cases self)
       (simp_all add: plugin_load_not_a_plugin loadable_def descriptor_invalid_def)
next
  case (incompatible h)
  then show ?thesis by (simp add: plugin_load_incompatible loadable_def)
next
  case (init_failed h)
  then show ?thesis by (simp add: plugin_load_init_failed loadable_def)
next
  case (ok h)
  then show ?thesis by (simp add: plugin_load_ok loadable_def loaded_path_def)
qed

lemma paths_run_ops:
  "map loaded_path (loaded_modules (run_ops env ops s)) =
     held_paths env ops (map loaded_path (loaded_modules s))"
proof (induction ops arbitrary: s)
  case Nil
  show ?case by simp
next
  case (Cons op ops)
  show ?case
  proof (cases op)
    case (Load filename)
    then show ?thesis
      by (simp only: run_ops.simps held_paths.simps Cons.IH paths_plugin_load)
  next
    case UnloadAll
    then show ?thesis
      by (simp add: Cons.IH)
  qed
qed

text \<open>
  C2, as the code has it: \<open>plugin_load\<close> does not look for an entry of the same path.
  Whether a call succeeds depends on the file alone, and each call that succeeds puts one
  entry in front of the loaded-set. So after any sequence of loads and shutdowns the paths
  in the loaded-set are the paths loaded with success since the last shutdown, the newest
  first, each as often as it was loaded; the loaded-set holds two entries of the same
  path exactly when a path was loaded with success twice since the last shutdown. In
  particular two loads in a row of a file that \<open>plugin_load\<close> accepts put two entries of
  its path in front of the loaded-set.
\<close>

theorem loaded_paths_held:
  "map loaded_path (loaded_modules (run_ops env ops s)) =
     held_paths env ops (map loaded_path (loaded_modules s)) \<and>
   (distinct (map loaded_path (loaded_modules (run_ops env ops init_state))) \<longleftrightarrow>
      distinct (held_paths env ops [])) \<and>
   (fst (plugin_load env filename s) \<noteq> None \<longleftrightarrow> loadable env filename) \<and>
   (loadable env filename \<longrightarrow>
      map loaded_path (loaded_modules (run_ops env [Load filename, Load filename] s)) =
        filename # filename # map loaded_path (loaded_modules s))"
proof (intro conjI)
  show "map loaded_path (loaded_modules (run_ops env ops s)) =
      held_paths env ops (map loaded_path (loaded_modules s))"
    by (rule paths_run_ops)
  show "distinct (map loaded_path (loaded_modules (run_ops env ops init_state))) \<longleftrightarrow>
      distinct (held_paths env ops [])"
    by (simp add: paths_run_ops)
  show "fst (plugin_load env filename s) \<noteq> None \<longleftrightarrow> loadable env filename"
    by (rule plugin_load_succeeds_iff)
  show "loadable env filename \<longrightarrow>
      map loaded_path (loaded_modules (run_ops env [Load filename, Load filename] s)) =
        filename # filename # map loaded_path (loaded_modules s)"
    by (simp add: paths_plugin_load)
qed

theorem loaded_paths_held_witness:
  "map loaded_path (loaded_modules
     (run_ops example_env [Load ''a.so'', Load ''b.so'', Load ''g.so'', Load ''b.so'']
        init_state)) = [''g.so'', ''a.so''] \<and>
   distinct (map loaded_path (loaded_modules
     (run_ops example_env [Load ''a.so'', Load ''b.so'', Load ''g.so'', Load ''b.so'']
        init_state))) \<and>
   map loaded_path (loaded_modules
     (run_ops example_env [Load ''a.so'', Load ''g.so'', UnloadAll, Load ''a.so'']
        init_state)) = [''a.so''] \<and>
   map loaded_path (loaded_modules
     (run_ops example_env [Load ''g.so'', Load ''a.so'', Load ''g.so''] init_state)) =
     [''g.so'', ''a.so'', ''g.so''] \<and>
   loadable example_env ''g.so'' \<and>
   map loaded_path (loaded_modules
     (run_ops example_env [Load ''g.so'', Load ''g.so''] state_a)) =
     [''g.so'', ''g.so'', ''a.so'']"
proof -
  have l: "loadable example_env ''a.so''" "\<not> loadable example_env ''b.so''"
    "loadable example_env ''g.so''"
    by (simp_all add: loadable_def example_env_def plugin_a_def plugin_b_def plugin_g_def
        version_supported_def lifecycle_kind_def)
  from loaded_paths_held
    [of example_env "[Load ''a.so'', Load ''b.so'', Load ''g.so'', Load ''b.so'']" init_state]
    loaded_paths_held
    [of example_env "[Load ''a.so'', Load ''g.so'', UnloadAll, Load ''a.so'']" init_state]
    loaded_paths_held
    [of example_env "[Load ''g.so'', Load ''a.so'', Load ''g.so'']" init_state]
    loaded_paths_held [of example_env "[]" state_a "''g.so''"]
  show ?thesis
    by (simp add: l state_a_eq loaded_path_def)
qed

text \<open>
  C2 as the spec states it (no two entries ever have the same path) fails when a good
  plugin is loaded twice: after two loads of \<open>a.so\<close> the loaded-set has two entries for it.
\<close>

theorem duplicate_path_counterexample:
  "map loaded_path (loaded_modules
     (run_ops example_env [Load ''a.so'', Load ''a.so''] init_state)) = [''a.so'', ''a.so''] \<and>
   \<not> distinct (map loaded_path (loaded_modules
     (run_ops example_env [Load ''a.so'', Load ''a.so''] init_state)))"
proof -
  have a: "shared_objects example_env ''a.so'' = Some (Some plugin_a)"
    by (simp add: example_env_def)
  have ok: "magic plugin_a = AUD_PLUGIN_MAGIC example_env"
    "version_supported example_env plugin_a"
    "\<not> (lifecycle_kind (type plugin_a) \<and> init plugin_a = Some False)"
    by (simp_all add: plugin_a_def example_env_def version_supported_def)
  show ?thesis
    by (simp add: plugin_load_ok [OF a ok] loaded_path_def)
qed

subsection \<open>Scanning and startup\<close>

lemma scan_plugin_func_eq:
  "scan_plugin_func env path basename s =
     (False, s\<lparr>trace := trace s @ scan_events env (path, basename)\<rparr>)"
  by (simp add: scan_plugin_func_def scan_events_def is_candidate_def stat_fails_def
      registration_def report_def plugin_register_def emit_def split: option.split)

lemma dir_foreach_entries_scan:
  "dir_foreach_entries (scan_plugin_func env) es s =
     s\<lparr>trace := trace s @ concat (map (scan_events env) es)\<rparr>"
proof (induction es arbitrary: s)
  case Nil
  show ?case by simp
next
  case (Cons e es)
  obtain path basename where e: "e = (path, basename)"
    by (cases e)
  have "dir_foreach_entries (scan_plugin_func env) (e # es) s =
      dir_foreach_entries (scan_plugin_func env) es
        (s\<lparr>trace := trace s @ scan_events env e\<rparr>)"
    by (simp add: e scan_plugin_func_eq [of env path basename s])
  then show ?case
    by (simp add: Cons.IH)
qed

lemma scan_plugins_eq:
  "scan_plugins env dir s = s\<lparr>trace := trace s @ scan_dir_events env dir\<rparr>"
  by (simp add: scan_plugins_def dir_foreach_def dir_foreach_entries_scan scan_dir_events_def
      emit_def)

lemma scan_dirs_eq:
  "scan_dirs env path ds s =
     s\<lparr>trace := trace s @
        concat (map (\<lambda>d. scan_dir_events env (filename_build env path d)) ds)\<rparr>"
  by (induction ds arbitrary: s) (simp_all add: scan_plugins_eq)

lemma registrations_append [simp]:
  "registrations (xs @ ys) = registrations xs @ registrations ys"
  by (induction xs rule: registrations.induct) simp_all

lemma stat_failures_append [simp]:
  "stat_failures (xs @ ys) = stat_failures xs @ stat_failures ys"
  by (induction xs rule: stat_failures.induct) simp_all

lemma scanned_dirs_append [simp]:
  "scanned_dirs (xs @ ys) = scanned_dirs xs @ scanned_dirs ys"
  by (induction xs rule: scanned_dirs.induct) simp_all

lemma registrations_scan_events:
  "registrations (concat (map (scan_events env) es)) =
     map (registration env) (filter (is_candidate env) es)"
  by (induction es) (simp_all add: scan_events_def)

lemma stat_failures_scan_events:
  "stat_failures (concat (map (scan_events env) es)) = map fst (filter (stat_fails env) es)"
  by (induction es) (auto simp add: scan_events_def is_candidate_def stat_fails_def)

lemma scanned_dirs_scan_events [simp]:
  "scanned_dirs (concat (map (scan_events env) es)) = []"
  by (induction es) (simp_all add: scan_events_def)

lemma scan_events_no_registry_call:
  "EvRegistryLoad \<notin> set (scan_events env e)"
  "EvRegistryPrune \<notin> set (scan_events env e)"
  by (simp_all add: scan_events_def)

lemma scan_dirs_no_registry_call:
  "EvRegistryLoad \<notin> set (concat (map (\<lambda>d. scan_dir_events env (f d)) ds))"
  "EvRegistryPrune \<notin> set (concat (map (\<lambda>d. scan_dir_events env (f d)) ds))"
  by (induction ds) (simp_all add: scan_dir_events_def scan_events_no_registry_call)

lemma scanned_dirs_scan_dirs:
  "scanned_dirs (concat (map (\<lambda>d. scan_dir_events env (f d)) ds)) = map f ds"
  by (induction ds) (simp_all add: scan_dir_events_def)

lemma registrations_scan_dirs:
  "registrations (concat (map (\<lambda>d. scan_dir_events env (f d)) ds)) =
     map (registration env)
       (filter (is_candidate env) (concat (map (\<lambda>d. dir_entries env (f d)) ds)))"
  by (induction ds) (simp_all add: scan_dir_events_def registrations_scan_events)

lemma stat_failures_scan_dirs:
  "stat_failures (concat (map (\<lambda>d. scan_dir_events env (f d)) ds)) =
     map fst (filter (stat_fails env) (concat (map (\<lambda>d. dir_entries env (f d)) ds)))"
  by (induction ds) (simp_all add: scan_dir_events_def stat_failures_scan_events)

lemma plugin_system_init_eq:
  "g_module_supported env \<Longrightarrow>
   plugin_system_init env s =
     Some (s\<lparr>trace := trace s @ EvRegistryLoad #
       concat (map (\<lambda>d. scan_dir_events env (filename_build env (plugin_dir env) d))
         plugin_dir_list) @ [EvRegistryPrune]\<rparr>)"
  by (simp add: plugin_system_init_def scan_dirs_eq emit_def)

lemma sint_scast_fits:
  fixes w :: "64 word"
  assumes "- (2 ^ 31) \<le> sint w" and "sint w < 2 ^ 31"
  shows "sint (scast w :: 32 word) = sint w"
proof -
  have "sint (scast w :: 32 word) = signed_take_bit 31 (sint w)"
    by (simp add: signed_scast_eq)
  also have "\<dots> = sint w"
    using assms by (simp add: signed_take_bit_int_eq_self_iff)
  finally show ?thesis .
qed

lemma registration_fits:
  "mtime_fits_int env entry \<Longrightarrow> registration env entry = mtime_registration env entry"
  by (cases entry)
     (simp add: mtime_fits_int_def registration_def mtime_registration_def sint_scast_fits
        split: option.splits)

lemma map_registration_fits:
  "list_all (mtime_fits_int env) es \<Longrightarrow>
   map (registration env) es = map (mtime_registration env) es"
  by (induction es) (simp_all add: registration_fits)

text \<open>
  C8, as the code has it: the scan of the tree at startup registers exactly the
  candidates among the entries of the seven directories, in the order of the walk, each
  under its path with its modification time as converted to the \<open>int\<close> that
  \<open>plugin_register\<close> takes; so with N candidates N registrations are made, whatever the
  other entries. An entry with the suffix on which \<open>g_stat\<close> fails is reported, and the
  walk goes on to the next entry. When the modification times of the candidates fit
  32 bits, each candidate is registered with its modification time itself. The same
  holds for the scan of a single directory.
\<close>

theorem scan_registers_candidates:
  assumes "g_module_supported env"
  shows "(\<exists>s'. plugin_system_init env s = Some s' \<and>
            registrations (emitted s s') =
              map (registration env) (filter (is_candidate env) (tree_entries env)) \<and>
            length (registrations (emitted s s')) =
              length (filter (is_candidate env) (tree_entries env)) \<and>
            stat_failures (emitted s s') =
              map fst (filter (stat_fails env) (tree_entries env)) \<and>
            (list_all (mtime_fits_int env) (filter (is_candidate env) (tree_entries env)) \<longrightarrow>
               registrations (emitted s s') =
                 map (mtime_registration env)
                   (filter (is_candidate env) (tree_entries env)))) \<and>
         registrations (emitted s (scan_plugins env dir s)) =
           map (registration env) (filter (is_candidate env) (dir_entries env dir)) \<and>
         stat_failures (emitted s (scan_plugins env dir s)) =
           map fst (filter (stat_fails env) (dir_entries env dir))"
proof -
  define s' where
    "s' = s\<lparr>trace := trace s @ EvRegistryLoad #
       concat (map (\<lambda>d. scan_dir_events env (filename_build env (plugin_dir env) d))
         plugin_dir_list) @ [EvRegistryPrune]\<rparr>"
  have init: "plugin_system_init env s = Some s'"
    unfolding s'_def using assms by (rule plugin_system_init_eq)
  have tree: "concat (map (\<lambda>d. dir_entries env (filename_build env (plugin_dir env) d))
      plugin_dir_list) = tree_entries env"
    by (simp add: tree_entries_def plugin_dir_list_def)
  have reg: "registrations (emitted s s') =
      map (registration env) (filter (is_candidate env) (tree_entries env))"
    by (simp add: s'_def registrations_scan_dirs tree)
  have fail: "stat_failures (emitted s s') =
      map fst (filter (stat_fails env) (tree_entries env))"
    by (simp add: s'_def stat_failures_scan_dirs tree)
  have fits: "list_all (mtime_fits_int env) (filter (is_candidate env) (tree_entries env)) \<longrightarrow>
      registrations (emitted s s') =
        map (mtime_registration env) (filter (is_candidate env) (tree_entries env))"
    by (simp add: reg map_registration_fits)
  have one: "registrations (emitted s (scan_plugins env dir s)) =
      map (registration env) (filter (is_candidate env) (dir_entries env dir))"
    "stat_failures (emitted s (scan_plugins env dir s)) =
      map fst (filter (stat_fails env) (dir_entries env dir))"
    by (simp_all add: scan_plugins_eq scan_dir_events_def registrations_scan_events
        stat_failures_scan_events)
  from init reg fail fits one show ?thesis
    by simp
qed

theorem scan_registers_candidates_witness:
  "g_module_supported tree_env \<and>
   list_all (mtime_fits_int tree_env) (filter (is_candidate tree_env) (tree_entries tree_env)) \<and>
   map (mtime_registration tree_env) (filter (is_candidate tree_env) (tree_entries tree_env)) =
     [(''p/Input/a.so'', 1000), (''p/Input/B.SO'', 2000), (''p/Output/c.so'', 5000),
      (''p/Effect/e.so'', 6000)] \<and>
   map fst (filter (stat_fails tree_env) (tree_entries tree_env)) =
     [''p/Input/gone.so'', ''p/Output/lost.so''] \<and>
   plugin_system_init tree_env init_state =
     Some \<lparr>loaded_modules = [],
       trace = [EvRegistryLoad, EvDirForeach ''p/Transport'', EvDirForeach ''p/Container'',
         EvDirForeach ''p/Input'', EvRegister ''p/Input/a.so'' 1000,
         EvError ''p/Input/gone.so'' StatFailed, EvRegister ''p/Input/B.SO'' 2000,
         EvDirForeach ''p/Output'', EvRegister ''p/Output/c.so'' 5000,
         EvError ''p/Output/lost.so'' StatFailed,
         EvDirForeach ''p/Effect'', EvRegister ''p/Effect/e.so'' 6000,
         EvDirForeach ''p/General'', EvDirForeach ''p/Visualization'', EvRegistryPrune]\<rparr>"
  using scan_registers_candidates [of tree_env init_state "''p/Input''"]
  by (simp add: plugin_system_init_def scan_dirs_eq scan_dir_events_def plugin_dir_list_def
      tree_entries_def scan_events_def is_candidate_def stat_fails_def registration_def
      mtime_registration_def mtime_fits_int_def emit_def init_state_def
      str_has_suffix_nocase_def ascii_tolower_def S_ISREG_def tree_env_def example_env_def)

text \<open>
  C8 as the spec states it (each candidate is registered with its modification time)
  fails for a file last modified after January 2038: \<open>c.so\<close>, modified 4102444800
  seconds after the epoch, is a candidate, and it is registered with -192522496, the low
  32 bits of its modification time.
\<close>

theorem mtime_narrowed_counterexample:
  "is_candidate late_env (''p/Output/c.so'', ''c.so'') \<and>
   mtime_registration late_env (''p/Output/c.so'', ''c.so'') =
     (''p/Output/c.so'', 4102444800) \<and>
   registration late_env (''p/Output/c.so'', ''c.so'') = (''p/Output/c.so'', - 192522496) \<and>
   map (mtime_registration late_env) (filter (is_candidate late_env) (tree_entries late_env)) =
     [(''p/Input/a.so'', 1000), (''p/Input/B.SO'', 2000), (''p/Output/c.so'', 4102444800),
      (''p/Effect/e.so'', 6000)] \<and>
   plugin_system_init late_env init_state =
     Some \<lparr>loaded_modules = [],
       trace = [EvRegistryLoad, EvDirForeach ''p/Transport'', EvDirForeach ''p/Container'',
         EvDirForeach ''p/Input'', EvRegister ''p/Input/a.so'' 1000,
         EvError ''p/Input/gone.so'' StatFailed, EvRegister ''p/Input/B.SO'' 2000,
         EvDirForeach ''p/Output'', EvRegister ''p/Output/c.so'' (- 192522496),
         EvError ''p/Output/lost.so'' StatFailed,
         EvDirForeach ''p/Effect'', EvRegister ''p/Effect/e.so'' 6000,
         EvDirForeach ''p/General'', EvDirForeach ''p/Visualization'', EvRegistryPrune]\<rparr>"
  by (simp add: plugin_system_init_def scan_dirs_eq scan_dir_events_def plugin_dir_list_def
      tree_entries_def scan_events_def is_candidate_def stat_fails_def registration_def
      mtime_registration_def emit_def init_state_def str_has_suffix_nocase_def
      ascii_tolower_def S_ISREG_def late_env_def tree_env_def example_env_def)

text \<open>
  C9: when modules are supported, \<open>plugin_system_init\<close> returns, and its outside calls
  are: the load of the registry, first; then the scan, which walks the seven
  directories Transport, Container, Input, Output, Effect, General and Visualization
  under the plugin directory, in this order; then the pruning of the registry, last.
  The scan neither loads nor prunes the registry, so it is pruned once, after all
  directories have been walked.
\<close>

theorem plugin_system_init_order:
  assumes "g_module_supported env"
  shows "\<exists>s' scan. plugin_system_init env s = Some s' \<and>
           emitted s s' = EvRegistryLoad # scan @ [EvRegistryPrune] \<and>
           EvRegistryLoad \<notin> set scan \<and> EvRegistryPrune \<notin> set scan \<and>
           scanned_dirs scan =
             map (filename_build env (plugin_dir env))
               [''Transport'', ''Container'', ''Input'', ''Output'', ''Effect'', ''General'',
                ''Visualization'']"
proof -
  define scan where
    "scan = concat (map (\<lambda>d. scan_dir_events env (filename_build env (plugin_dir env) d))
       plugin_dir_list)"
  have no_call: "EvRegistryLoad \<notin> set scan" "EvRegistryPrune \<notin> set scan"
    unfolding scan_def by (rule scan_dirs_no_registry_call)+
  have dirs: "scanned_dirs scan = map (filename_build env (plugin_dir env)) plugin_dir_list"
    unfolding scan_def by (rule scanned_dirs_scan_dirs)
  have "plugin_system_init env s =
      Some (s\<lparr>trace := trace s @ EvRegistryLoad # scan @ [EvRegistryPrune]\<rparr>)"
    using assms by (simp add: plugin_system_init_def scan_dirs_eq scan_def emit_def)
  with no_call dirs show ?thesis
    by (simp add: plugin_dir_list_def)
qed

theorem plugin_system_init_order_witness:
  "g_module_supported example_env \<and>
   plugin_system_init example_env init_state =
     Some \<lparr>loaded_modules = [],
       trace = [EvRegistryLoad, EvDirForeach ''p/Transport'', EvDirForeach ''p/Container'',
         EvDirForeach ''p/Input'', EvRegister ''p/Input/a.so'' 1000,
         EvError ''p/Input/gone.so'' StatFailed, EvRegister ''p/Input/B.SO'' 2000,
         EvDirForeach ''p/Output'', EvDirForeach ''p/Effect'', EvDirForeach ''p/General'',
         EvDirForeach ''p/Visualization'', EvRegistryPrune]\<rparr>"
  using plugin_system_init_order [of example_env init_state]
  by (simp add: plugin_system_init_def scan_dirs_eq scan_dir_events_def plugin_dir_list_def
      scan_events_def is_candidate_def stat_fails_def registration_def emit_def init_state_def
      str_has_suffix_nocase_def ascii_tolower_def S_ISREG_def example_env_def)

end
